theory Spec2Isabelle
  imports Main
begin

section \<open>Status aggregation of the runtimes command\<close>

text \<open>
  Source: \<^verbatim>\<open>tools/cli/pkg/command/runtime.go\<close>. The functions embedded here are
  \<^verbatim>\<open>findLastOperation\<close> and \<^verbatim>\<open>operationStatusToString\<close>. The types
  \<^verbatim>\<open>runtime.RuntimeDTO\<close> and \<^verbatim>\<open>runtime.Operation\<close> are declared in another package;
  the records below carry the fields that the two functions read.
\<close>

subsection \<open>Data\<close>

text \<open>
  A \<^verbatim>\<open>time.Time\<close> is an instant on the time line, here an integer. \<^verbatim>\<open>t.After(u)\<close> is
  strict.
\<close>

type_synonym Time = int

definition After :: "Time \<Rightarrow> Time \<Rightarrow> bool" where
  "After t u = (u < t)"

record Operation =
  State :: string
  CreatedAt :: Time

text \<open>A page of operations of one kind: the records and their number.\<close>

record OperationsData =
  Data :: "Operation list"
  Count :: int

text \<open>The two pointer fields are \<open>None\<close> when the pointer is nil.\<close>

record RuntimeStatus =
  Provisioning :: "Operation option"
  Deprovisioning :: "Operation option"
  UpgradingKyma :: OperationsData
  Suspension :: OperationsData
  Unsuspension :: OperationsData

record RuntimeDTO =
  Status :: RuntimeStatus

definition inProgress :: string where
  "inProgress = ''in progress''"

definition succeeded :: string where
  "succeeded = ''succeeded''"

definition failed :: string where
  "failed = ''failed''"

text \<open>
  \<^verbatim>\<open>type operationType string\<close>: a kind is a string, and the source declares five
  constants of the type. A value of the type need not be one of the five.
\<close>

type_synonym operationType = string

definition provision :: operationType where
  "provision = ''provision''"

definition deprovision :: operationType where
  "deprovision = ''deprovision''"

definition upgradeKyma :: operationType where
  "upgradeKyma = ''kyma upgrade''"

definition suspension :: operationType where
  "suspension = ''suspension''"

definition unsuspension :: operationType where
  "unsuspension = ''unsuspension''"

text \<open>The two run-time panics that \<^verbatim>\<open>findLastOperation\<close> can raise.\<close>

datatype panic = NilPointerDereference | IndexOutOfRange

subsection \<open>findLastOperation\<close>

text \<open>
  The candidate is the pair \<^verbatim>\<open>(op, opType)\<close>. Each definition below is one \<^verbatim>\<open>if\<close>
  statement of the function, in the order of the source. \<^verbatim>\<open>&&\<close> evaluates its right
  operand only when the left one holds, so \<^verbatim>\<open>Data[0]\<close> is read only when
  \<^verbatim>\<open>Count > 0\<close>; reading it from an empty slice panics.
\<close>

type_synonym candidate = "Operation \<times> operationType"

definition takeUpgradingKyma :: "RuntimeStatus \<Rightarrow> candidate \<Rightarrow> panic + candidate" where
  "takeUpgradingKyma st c =
     (if Count (UpgradingKyma st) > 0 then
        (case Data (UpgradingKyma st) of
           [] \<Rightarrow> Inl IndexOutOfRange
         | d # _ \<Rightarrow> Inr (d, upgradeKyma))
      else Inr c)"

definition takeUnsuspension :: "RuntimeStatus \<Rightarrow> candidate \<Rightarrow> panic + candidate" where
  "takeUnsuspension st c =
     (if Count (Unsuspension st) > 0 then
        (case Data (Unsuspension st) of
           [] \<Rightarrow> Inl IndexOutOfRange
         | d # _ \<Rightarrow>
             if After (CreatedAt d) (CreatedAt (fst c)) then Inr (d, unsuspension) else Inr c)
      else Inr c)"

definition takeSuspension :: "RuntimeStatus \<Rightarrow> candidate \<Rightarrow> panic + candidate" where
  "takeSuspension st c =
     (if Count (Suspension st) > 0 then
        (case Data (Suspension st) of
           [] \<Rightarrow> Inl IndexOutOfRange
         | d # _ \<Rightarrow>
             if After (CreatedAt d) (CreatedAt (fst c)) then Inr (d, suspension) else Inr c)
      else Inr c)"

definition takeDeprovisioning :: "RuntimeStatus \<Rightarrow> candidate \<Rightarrow> candidate" where
  "takeDeprovisioning st c =
     (case Deprovisioning st of
        None \<Rightarrow> c
      | Some d \<Rightarrow> if After (CreatedAt d) (CreatedAt (fst c)) then (d, deprovision) else c)"

definition findLastOperation :: "RuntimeDTO \<Rightarrow> panic + candidate" where
  "findLastOperation rt =
     (case Provisioning (Status rt) of
        None \<Rightarrow> Inl NilPointerDereference
      | Some p \<Rightarrow>
          (case takeUpgradingKyma (Status rt) (p, provision) of
             Inl e \<Rightarrow> Inl e
           | Inr c1 \<Rightarrow>
               (case takeUnsuspension (Status rt) c1 of
                  Inl e \<Rightarrow> Inl e
                | Inr c2 \<Rightarrow>
                    (case takeSuspension (Status rt) c2 of
                       Inl e \<Rightarrow> Inl e
                     | Inr c3 \<Rightarrow> Inr (takeDeprovisioning (Status rt) c3)))))"

text \<open>
  Two predicates for statements about the selection. \<open>firstNotNewer page op\<close>: if the
  page is read, that is if its \<^verbatim>\<open>Count\<close> is positive, then it has a first record
  and that record was not created after \<open>op\<close>; a page with a positive \<^verbatim>\<open>Count\<close> and
  no record does not satisfy it. \<open>noNewerRecord r op\<close>: the pointer \<open>r\<close> is nil or its
  record was not created after \<open>op\<close>.
\<close>

definition firstNotNewer :: "OperationsData \<Rightarrow> Operation \<Rightarrow> bool" where
  "firstNotNewer page op =
     (Count page > 0 \<longrightarrow>
        (case Data page of
           [] \<Rightarrow> False
         | d # _ \<Rightarrow> \<not> After (CreatedAt d) (CreatedAt op)))"

definition noNewerRecord :: "Operation option \<Rightarrow> Operation \<Rightarrow> bool" where
  "noNewerRecord r op =
     (case r of
        None \<Rightarrow> True
      | Some d \<Rightarrow> \<not> After (CreatedAt d) (CreatedAt op))"

subsection \<open>operationStatusToString\<close>

text \<open>
  The outer \<^verbatim>\<open>switch\<close> is on the state, the inner ones on the kind. A kind that no
  \<^verbatim>\<open>case\<close> of an inner \<^verbatim>\<open>switch\<close> names falls out of it: to the
  \<^verbatim>\<open>return "succeeded"\<close> inside \<^verbatim>\<open>case succeeded\<close>, and to the last line of the
  function from \<^verbatim>\<open>case inProgress\<close>. \<^verbatim>\<open>case failed\<close> formats the kind with
  \<^verbatim>\<open>"%s (%s)"\<close>, whatever it is. \<open>coveredByTable\<close> says that a state and a kind are
  one of the fifteen combinations of the three state constants and the five kind
  constants.
\<close>

definition operationStatusToString :: "Operation \<Rightarrow> operationType \<Rightarrow> string" where
  "operationStatusToString op t =
     (if State op = succeeded then
        (if t = deprovision then ''deprovisioned''
         else if t = suspension then ''suspended''
         else ''succeeded'')
      else if State op = failed then
        ''failed'' @ '' ('' @ t @ '')''
      else if State op = inProgress then
        (if t = provision then ''provisioning''
         else if t = unsuspension then ''provisioning (unsuspending)''
         else if t = deprovision then ''deprovisioning''
         else if t = suspension then ''deprovisioning (suspending)''
         else if t = upgradeKyma then ''upgrading''
         else ''succeeded'')
      else ''succeeded'')"

definition coveredByTable :: "string \<Rightarrow> operationType \<Rightarrow> bool" where
  "coveredByTable st t =
     (st \<in> {inProgress, succeeded, failed}
      \<and> t \<in> {provision, upgradeKyma, suspension, unsuspension, deprovision})"

text \<open>\<^verbatim>\<open>runtimeStatus\<close>: the label of the operation that \<^verbatim>\<open>findLastOperation\<close> selects.\<close>

definition runtimeStatus :: "RuntimeDTO \<Rightarrow> panic + string" where
  "runtimeStatus rt =
     (case findLastOperation rt of
        Inl e \<Rightarrow> Inl e
      | Inr (op, t) \<Rightarrow> Inr (operationStatusToString op t))"

section \<open>Operation store and operation manager\<close>

text \<open>
  \<^verbatim>\<open>upgrade_kyma_operation_test.go\<close> exercises the operation manager
  (\<^verbatim>\<open>NewUpgradeKymaOperationManager\<close> with \<^verbatim>\<open>OperationSucceeded\<close>,
  \<^verbatim>\<open>OperationFailed\<close> and \<^verbatim>\<open>RetryOperation\<close>, the specification's Succeed, Fail
  and Retry) on the operation store of \<^verbatim>\<open>storage.NewMemoryStorage\<close>. Neither the
  manager nor the store is among the source files, so both are modelled from the
  specification, sections 3, 4.1, 4.2, 7 and 8. Durations and instants are integers
  (nanoseconds, as in \<^verbatim>\<open>time.Duration\<close>).
\<close>

subsection \<open>Operation records\<close>

text \<open>
  Modelled from the spec: the states of an operation (section 3); the type
  \<^verbatim>\<open>domain.LastOperationState\<close> is declared outside the sources. \<open>Succeeded\<close> and
  \<open>Failed\<close> are the terminal states.
\<close>

datatype LastOperationState = Pending | InProgress | Succeeded | Failed

definition terminal :: "LastOperationState \<Rightarrow> bool" where
  "terminal st = (st = Succeeded \<or> st = Failed)"

text \<open>
  Modelled from the spec: the base operation (section 3), \<^verbatim>\<open>internal.Operation\<close>,
  declared outside the sources; the fields are those that section 3 lists, under the
  names \<^verbatim>\<open>fixUpgradeKymaOperation\<close> gives them. \<open>opState\<close> and \<open>opCreatedAt\<close>
  are the fields \<^verbatim>\<open>State\<close> and \<^verbatim>\<open>CreatedAt\<close>.
\<close>

record internalOperation =
  ID :: string
  Version :: int
  InstanceID :: string
  opState :: LastOperationState
  Description :: string
  opCreatedAt :: Time
  UpdatedAt :: Time
  ProvisionerOperationID :: string


subsection \<open>Operation store\<close>

text \<open>
  Modelled from the spec: the errors of the store (sections 4.2 and 7) and the store
  itself, a keyed storage of operation records by \<^verbatim>\<open>ID\<close>; their code is not among
  the sources.
\<close>

datatype storeError = AlreadyExists | Conflict | NotFound

type_synonym store = "string \<rightharpoonup> internalOperation"

text \<open>
  Modelled from the spec: the store's \<^verbatim>\<open>Insert\<close> (section 4.2), whose code is not
  among the sources. It fails with \<open>AlreadyExists\<close> if the ID is already present.
\<close>

definition Insert :: "store \<Rightarrow> internalOperation \<Rightarrow> storeError + store" where
  "Insert s op =
     (case s (ID op) of
        Some _ \<Rightarrow> Inl AlreadyExists
      | None \<Rightarrow> Inr (s(ID op \<mapsto> op)))"

text \<open>
  Modelled from the spec: the store's \<^verbatim>\<open>Get\<close> (section 4.2), whose code is not among
  the sources. It fails with \<open>NotFound\<close> if the ID is absent.
\<close>

definition Get :: "store \<Rightarrow> string \<Rightarrow> storeError + internalOperation" where
  "Get s k = (case s k of None \<Rightarrow> Inl NotFound | Some op \<Rightarrow> Inr op)"

text \<open>
  Modelled from the spec: the store's \<^verbatim>\<open>Update\<close> (section 4.2), whose code is not
  among the sources. When the presented version equals the stored one, the record is
  persisted with the version increased by one and \<^verbatim>\<open>UpdatedAt\<close> set to the time of the
  call; on a mismatch it fails with \<open>Conflict\<close> and the store is left as it was. The
  specification does not say what an update of an absent record does; here it is
  \<open>NotFound\<close>, the error of section 7. The definition is a function from the store
  before the call to the store after it: it describes one call that runs alone, and
  says nothing about calls that overlap in time.
\<close>

definition Update ::
  "Time \<Rightarrow> store \<Rightarrow> internalOperation \<Rightarrow> storeError + (store \<times> internalOperation)" where
  "Update now s op =
     (case s (ID op) of
        None \<Rightarrow> Inl NotFound
      | Some cur \<Rightarrow>
          if Version op = Version cur then
            (let op' = op\<lparr>Version := Version op + 1, UpdatedAt := now\<rparr>
             in Inr (s(ID op \<mapsto> op'), op'))
          else Inl Conflict)"

subsection \<open>Operation manager\<close>

text \<open>
  Modelled from the spec: the errors a transition of the manager returns (section 7),
  and their text; the manager's code is not among the sources.
  \<open>OperationFailedError\<close> carries the message passed to Fail, and its text is that
  message. Of the text of \<open>RetryExhausted\<close> the specification fixes only that it
  describes the exhaustion and includes the original message. \<open>TerminalState\<close> is the
  explicit rejection of a call on an operation in a terminal state (section 8).
\<close>

datatype managerError =
    OperationFailedError string
  | RetryExhausted string
  | StorageError storeError
  | TerminalState



text \<open>
  Modelled from the spec: what a transition of the manager gives back (section 4.1),
  the operation, the scheduling delay and the error, \<open>None\<close> for nil, together with
  the store after the call.
\<close>

record outcome =
  stored :: store
  updated :: internalOperation
  delay :: int
  err :: "managerError option"

text \<open>
  Modelled from the spec: one attempt of the manager to write a transition, whose code
  is not among the sources. \<open>Succeeded\<close> and \<open>Failed\<close> are absorbing and no call may
  change the state of an operation that has reached one of them (sections 3, 4.1 and
  8); of the two ways section 8 allows, the call is rejected here. So the attempt is
  rejected with \<open>TerminalState\<close> when the operation passed in is in a terminal
  state, and also when the record that the store holds under its ID is. Otherwise the
  transition \<open>tr\<close> is applied to the operation and the result is handed to
  \<^verbatim>\<open>Update\<close>.
\<close>

definition attempt ::
  "Time \<Rightarrow> store \<Rightarrow> (internalOperation \<Rightarrow> internalOperation) \<Rightarrow> internalOperation
     \<Rightarrow> managerError + (store \<times> internalOperation)" where
  "attempt now s tr op =
     (if terminal (opState op) then Inl TerminalState
      else
        (case Get s (ID op) of
           Inl e \<Rightarrow> Inl (StorageError e)
         | Inr cur \<Rightarrow>
             if terminal (opState cur) then Inl TerminalState
             else
               (case Update now s (tr op) of
                  Inl e \<Rightarrow> Inl (StorageError e)
                | Inr r \<Rightarrow> Inr r)))"

text \<open>
  Modelled from the spec: the manager's bounded retry of \<^verbatim>\<open>Update\<close> (section 4.2),
  whose code is not among the sources. On \<open>Conflict\<close> the latest record is read again
  and the same transition is attempted on it, at most \<open>n\<close> more times. Any other
  error is handed on at once.
\<close>

fun persist ::
  "nat \<Rightarrow> Time \<Rightarrow> store \<Rightarrow> (internalOperation \<Rightarrow> internalOperation) \<Rightarrow> internalOperation
     \<Rightarrow> managerError + (store \<times> internalOperation)" where
  "persist 0 now s tr op = attempt now s tr op"
| "persist (Suc n) now s tr op =
     (case attempt now s tr op of
        Inr r \<Rightarrow> Inr r
      | Inl (StorageError Conflict) \<Rightarrow>
          (case Get s (ID op) of
             Inl e \<Rightarrow> Inl (StorageError e)
           | Inr latest \<Rightarrow> persist n now s tr latest)
      | Inl e \<Rightarrow> Inl e)"

text \<open>
  Modelled from the spec: \<^verbatim>\<open>OperationSucceeded\<close>, the Succeed of section 4.1, whose
  code is not among the sources. It sets the state to \<open>Succeeded\<close>, replaces the
  description and persists; the delay is zero. A failure to persist is returned as
  the error, with the operation as it was passed in.
\<close>

definition OperationSucceeded ::
  "nat \<Rightarrow> Time \<Rightarrow> store \<Rightarrow> internalOperation \<Rightarrow> string \<Rightarrow> outcome" where
  "OperationSucceeded retries now s op description =
     (case persist retries now s (\<lambda>x. x\<lparr>opState := Succeeded, Description := description\<rparr>) op of
        Inr (s', op') \<Rightarrow> \<lparr>stored = s', updated = op', delay = 0, err = None\<rparr>
      | Inl e \<Rightarrow> \<lparr>stored = s, updated = op, delay = 0, err = Some e\<rparr>)"

text \<open>
  Modelled from the spec: \<^verbatim>\<open>OperationFailed\<close>, the Fail of section 4.1, whose code is
  not among the sources. It sets the state to \<open>Failed\<close>, replaces the description with
  the message and persists; after the write has succeeded it still returns an error,
  the one that carries the message. A failure to persist is handed on (section 7),
  with the operation as it was passed in.
\<close>

definition OperationFailed ::
  "nat \<Rightarrow> Time \<Rightarrow> store \<Rightarrow> internalOperation \<Rightarrow> string \<Rightarrow> outcome" where
  "OperationFailed retries now s op errorMessage =
     (case persist retries now s (\<lambda>x. x\<lparr>opState := Failed, Description := errorMessage\<rparr>) op of
        Inr (s', op') \<Rightarrow>
          \<lparr>stored = s', updated = op', delay = 0, err = Some (OperationFailedError errorMessage)\<rparr>
      | Inl e \<Rightarrow> \<lparr>stored = s, updated = op, delay = 0, err = Some e\<rparr>)"

text \<open>
  Modelled from the spec: the delay of a permitted retry (section 4.1, step 3), whose
  code is not among the sources. The specification gives
  \<open>retryInterval - (elapsed mod retryInterval)\<close>, and the fixed \<open>retryInterval\<close> when
  the elapsed time has not yet consumed one full interval. The formula is used where
  it has one meaning, for a positive interval that the elapsed time has reached
  (there every convention for \<open>mod\<close> gives the same remainder); everywhere else the
  delay is the fixed \<open>retryInterval\<close>.
\<close>

definition retryDelay :: "int \<Rightarrow> int \<Rightarrow> int" where
  "retryDelay retryInterval elapsed =
     (if 0 < retryInterval \<and> retryInterval \<le> elapsed
      then retryInterval - (elapsed mod retryInterval)
      else retryInterval)"

text \<open>
  Modelled from the spec: \<^verbatim>\<open>RetryOperation\<close>, the Retry of section 4.1, whose code is
  not among the sources. With \<open>elapsed = now - UpdatedAt\<close>: when \<open>elapsed \<ge> maxTime\<close> the
  operation is moved to \<open>Failed\<close> as by Fail, the delay is zero and the error reports the
  exhaustion with the message; otherwise the state is left as it is, the description is
  replaced by the message, the record is persisted, and the delay is \<open>retryDelay\<close>
  with no error. A failure to persist is handed on, with the operation as it was
  passed in and a zero delay. The logger is an external collaborator (section 6) and
  has no part in the result.
\<close>

definition RetryOperation ::
  "nat \<Rightarrow> Time \<Rightarrow> store \<Rightarrow> internalOperation \<Rightarrow> string \<Rightarrow> int \<Rightarrow> int \<Rightarrow> outcome" where
  "RetryOperation retries now s op errorMessage retryInterval maxTime =
     (let elapsed = now - UpdatedAt op in
      if elapsed \<ge> maxTime then
        (case persist retries now s (\<lambda>x. x\<lparr>opState := Failed, Description := errorMessage\<rparr>) op of
           Inr (s', op') \<Rightarrow>
             \<lparr>stored = s', updated = op', delay = 0, err = Some (RetryExhausted errorMessage)\<rparr>
         | Inl e \<Rightarrow> \<lparr>stored = s, updated = op, delay = 0, err = Some e\<rparr>)
      else
        (case persist retries now s (\<lambda>x. x\<lparr>Description := errorMessage\<rparr>) op of
           Inr (s', op') \<Rightarrow>
             \<lparr>stored = s', updated = op',
              delay = retryDelay retryInterval elapsed, err = None\<rparr>
         | Inl e \<Rightarrow> \<lparr>stored = s, updated = op, delay = 0, err = Some e\<rparr>))"

section \<open>Example inputs\<close>

definition noData :: OperationsData where
  "noData = \<lparr>Data = [], Count = 0\<rparr>"

text \<open>A runtime whose Kyma upgrade record is older than its provisioning record.\<close>

definition olderUpgradeRuntime :: RuntimeDTO where
  "olderUpgradeRuntime =
     \<lparr>Status =
        \<lparr>Provisioning = Some \<lparr>State = inProgress, CreatedAt = 10\<rparr>,
         Deprovisioning = None,
         UpgradingKyma = \<lparr>Data = [\<lparr>State = succeeded, CreatedAt = 5\<rparr>], Count = 1\<rparr>,
         Suspension = noData,
         Unsuspension = noData\<rparr>\<rparr>"

text \<open>Provisioned at 1, upgrade started at 2, deprovisioning started at 3.\<close>

definition deprovisionedAfterUpgrade :: RuntimeDTO where
  "deprovisionedAfterUpgrade =
     \<lparr>Status =
        \<lparr>Provisioning = Some \<lparr>State = inProgress, CreatedAt = 1\<rparr>,
         Deprovisioning = Some \<lparr>State = inProgress, CreatedAt = 3\<rparr>,
         UpgradingKyma = \<lparr>Data = [\<lparr>State = inProgress, CreatedAt = 2\<rparr>], Count = 1\<rparr>,
         Suspension = noData,
         Unsuspension = noData\<rparr>\<rparr>"

text \<open>
  Provisioned at 1, upgrade started at 2; the suspension page announces one record and
  holds none.
\<close>

definition emptySuspensionPage :: RuntimeDTO where
  "emptySuspensionPage =
     \<lparr>Status =
        \<lparr>Provisioning = Some \<lparr>State = inProgress, CreatedAt = 1\<rparr>,
         Deprovisioning = None,
         UpgradingKyma = \<lparr>Data = [\<lparr>State = inProgress, CreatedAt = 2\<rparr>], Count = 1\<rparr>,
         Suspension = \<lparr>Data = [], Count = 1\<rparr>,
         Unsuspension = noData\<rparr>\<rparr>"

text \<open>
  Provisioned at 1, suspended at 2 (done), upgrade started at 2 as well; nothing is
  newer than the upgrade.
\<close>

definition upgradedRuntime :: RuntimeDTO where
  "upgradedRuntime =
     \<lparr>Status =
        \<lparr>Provisioning = Some \<lparr>State = inProgress, CreatedAt = 1\<rparr>,
         Deprovisioning = None,
         UpgradingKyma = \<lparr>Data = [\<lparr>State = inProgress, CreatedAt = 2\<rparr>], Count = 1\<rparr>,
         Suspension = \<lparr>Data = [\<lparr>State = succeeded, CreatedAt = 2\<rparr>], Count = 1\<rparr>,
         Unsuspension = noData\<rparr>\<rparr>"

text \<open>A runtime without a provisioning record that has records of other kinds.\<close>

definition unprovisionedRuntime :: RuntimeDTO where
  "unprovisionedRuntime =
     \<lparr>Status =
        \<lparr>Provisioning = None,
         Deprovisioning = Some \<lparr>State = succeeded, CreatedAt = 4\<rparr>,
         UpgradingKyma = \<lparr>Data = [\<lparr>State = succeeded, CreatedAt = 2\<rparr>], Count = 1\<rparr>,
         Suspension = \<lparr>Data = [\<lparr>State = succeeded, CreatedAt = 3\<rparr>], Count = 1\<rparr>,
         Unsuspension = noData\<rparr>\<rparr>"







section \<open>Properties of the status aggregation\<close>

lemmas take_defs =
  takeUpgradingKyma_def takeUnsuspension_def takeSuspension_def takeDeprovisioning_def

lemmas state_defs = inProgress_def succeeded_def failed_def

lemmas kind_defs =
  provision_def deprovision_def upgradeKyma_def suspension_def unsuspension_def

subsection \<open>The steps of the selection\<close>

text \<open>
  The unsuspension, suspension and deprovisioning steps replace the candidate exactly
  when the record they look at was created strictly after it.
\<close>

lemma takeUnsuspension_first:
  assumes "Count (Unsuspension st) > 0" and "Data (Unsuspension st) = d # ds"
  shows "takeUnsuspension st (op, t) =
           Inr (if After (CreatedAt d) (CreatedAt op) then (d, unsuspension) else (op, t))"
  using assms by (simp add: takeUnsuspension_def)

lemma takeSuspension_first:
  assumes "Count (Suspension st) > 0" and "Data (Suspension st) = d # ds"
  shows "takeSuspension st (op, t) =
           Inr (if After (CreatedAt d) (CreatedAt op) then (d, suspension) else (op, t))"
  using assms by (simp add: takeSuspension_def)

lemma takeDeprovisioning_Some:
  assumes "Deprovisioning st = Some d"
  shows "takeDeprovisioning st (op, t) =
           (if After (CreatedAt d) (CreatedAt op) then (d, deprovision) else (op, t))"
  using assms by (simp add: takeDeprovisioning_def)

text \<open>The upgrade step has no such test: the first record of the page is taken.\<close>

lemma takeUpgradingKyma_first:
  assumes "Count (UpgradingKyma st) > 0" and "Data (UpgradingKyma st) = d # ds"
  shows "takeUpgradingKyma st c = Inr (d, upgradeKyma)"
  using assms by (simp add: takeUpgradingKyma_def)

lemma takeUnsuspension_keeps:
  "firstNotNewer (Unsuspension st) op \<Longrightarrow> takeUnsuspension st (op, t) = Inr (op, t)"
  by (auto simp: takeUnsuspension_def firstNotNewer_def split: list.splits)

lemma takeSuspension_keeps:
  "firstNotNewer (Suspension st) op \<Longrightarrow> takeSuspension st (op, t) = Inr (op, t)"
  by (auto simp: takeSuspension_def firstNotNewer_def split: list.splits)

lemma takeDeprovisioning_keeps:
  "noNewerRecord (Deprovisioning st) op \<Longrightarrow> takeDeprovisioning st (op, t) = (op, t)"
  by (auto simp: takeDeprovisioning_def noNewerRecord_def split: option.splits)

subsection \<open>Selection of the candidate\<close>

text \<open>
  Claim C1 says that, starting from the Provisioning record, each of Upgrade,
  Unsuspension, Suspension and Deprovisioning replaces the candidate only when its most
  recent record was created strictly after the candidate, and leaves the candidate
  unchanged otherwise. The code makes that comparison for Unsuspension, Suspension and
  Deprovisioning, not for Upgrade. Evaluated on a runtime provisioned at 10 whose only
  upgrade record is of 5: the upgrade record is not after the provisioning record, and
  it is selected all the same.
\<close>

theorem findLastOperation_selects_older_upgrade:
  "\<not> After (5::Time) 10
 \<and> Provisioning (Status olderUpgradeRuntime) = Some \<lparr>State = inProgress, CreatedAt = 10\<rparr>
 \<and> findLastOperation olderUpgradeRuntime =
       Inr (\<lparr>State = succeeded, CreatedAt = 5\<rparr>, upgradeKyma)"
  by (simp add: findLastOperation_def olderUpgradeRuntime_def take_defs noData_def After_def)

text \<open>
  Claim C10: \<^verbatim>\<open>findLastOperation\<close> dereferences the Provisioning pointer first, so on
  every runtime whose Provisioning status is nil it panics, whatever records of the other
  kinds there are.
\<close>

theorem findLastOperation_nil_Provisioning:
  "Provisioning (Status rt) = None \<Longrightarrow> findLastOperation rt = Inl NilPointerDereference"
  by (simp add: findLastOperation_def)

theorem findLastOperation_nil_Provisioning_witness:
  "Provisioning (Status unprovisionedRuntime) = None
 \<and> Count (UpgradingKyma (Status unprovisionedRuntime)) > 0
 \<and> Count (Suspension (Status unprovisionedRuntime)) > 0
 \<and> Deprovisioning (Status unprovisionedRuntime) \<noteq> None
 \<and> findLastOperation unprovisionedRuntime = Inl NilPointerDereference"
  using findLastOperation_nil_Provisioning [of unprovisionedRuntime]
  by (simp add: unprovisionedRuntime_def)

subsection \<open>Labels\<close>

text \<open>
  Claim C6: for each of the three states and five kinds of the label table,
  \<^verbatim>\<open>operationStatusToString\<close> returns the label of the table.
\<close>

theorem operationStatusToString_table:
  "operationStatusToString (op\<lparr>State := inProgress\<rparr>) provision = ''provisioning''
 \<and> operationStatusToString (op\<lparr>State := inProgress\<rparr>) upgradeKyma = ''upgrading''
 \<and> operationStatusToString (op\<lparr>State := inProgress\<rparr>) suspension
       = ''deprovisioning (suspending)''
 \<and> operationStatusToString (op\<lparr>State := inProgress\<rparr>) unsuspension
       = ''provisioning (unsuspending)''
 \<and> operationStatusToString (op\<lparr>State := inProgress\<rparr>) deprovision = ''deprovisioning''
 \<and> operationStatusToString (op\<lparr>State := succeeded\<rparr>) provision = ''succeeded''
 \<and> operationStatusToString (op\<lparr>State := succeeded\<rparr>) upgradeKyma = ''succeeded''
 \<and> operationStatusToString (op\<lparr>State := succeeded\<rparr>) suspension = ''suspended''
 \<and> operationStatusToString (op\<lparr>State := succeeded\<rparr>) unsuspension = ''succeeded''
 \<and> operationStatusToString (op\<lparr>State := succeeded\<rparr>) deprovision = ''deprovisioned''
 \<and> operationStatusToString (op\<lparr>State := failed\<rparr>) provision = ''failed (provision)''
 \<and> operationStatusToString (op\<lparr>State := failed\<rparr>) upgradeKyma = ''failed (kyma upgrade)''
 \<and> operationStatusToString (op\<lparr>State := failed\<rparr>) suspension = ''failed (suspension)''
 \<and> operationStatusToString (op\<lparr>State := failed\<rparr>) unsuspension = ''failed (unsuspension)''
 \<and> operationStatusToString (op\<lparr>State := failed\<rparr>) deprovision = ''failed (deprovision)''"
  by (simp add: operationStatusToString_def state_defs kind_defs)

text \<open>
  Claim C7 as stated, \<open>succeeded\<close> for every state and kind that the table does not
  cover, fails for the state \<open>failed\<close> with a kind that is none of the five constants:
  the table has no entry for the kind \<open>other\<close>, and the label is \<open>failed (other)\<close>.
\<close>

theorem operationStatusToString_failed_other_kind:
  "\<not> coveredByTable failed ''other''
 \<and> operationStatusToString \<lparr>State = failed, CreatedAt = 0\<rparr> ''other'' = ''failed (other)''
 \<and> operationStatusToString \<lparr>State = failed, CreatedAt = 0\<rparr> ''other'' \<noteq> ''succeeded''"
  by (simp add: coveredByTable_def operationStatusToString_def state_defs kind_defs)

text \<open>
  Claim C7, amended: for every state and kind that the table does not cover and whose
  state is not \<open>failed\<close>, the label is \<open>succeeded\<close>. That is every kind with a state
  that is none of the three constants, and the states \<open>in progress\<close> and \<open>succeeded\<close>
  with a kind that is none of the five.
\<close>

theorem operationStatusToString_fallback:
  assumes "\<not> coveredByTable (State op) t" and "State op \<noteq> failed"
  shows "operationStatusToString op t = ''succeeded''"
  using assms by (auto simp: operationStatusToString_def coveredByTable_def)

theorem operationStatusToString_fallback_witness:
  "\<not> coveredByTable (State \<lparr>State = ''pending'', CreatedAt = 0\<rparr>) deprovision
 \<and> State \<lparr>State = ''pending'', CreatedAt = 0\<rparr> \<noteq> failed
 \<and> operationStatusToString \<lparr>State = ''pending'', CreatedAt = 0\<rparr> deprovision = ''succeeded''
 \<and> \<not> coveredByTable (State \<lparr>State = inProgress, CreatedAt = 0\<rparr>) ''other''
 \<and> State \<lparr>State = inProgress, CreatedAt = 0\<rparr> \<noteq> failed
 \<and> operationStatusToString \<lparr>State = inProgress, CreatedAt = 0\<rparr> ''other'' = ''succeeded''"
  using operationStatusToString_fallback [of "\<lparr>State = ''pending'', CreatedAt = 0\<rparr>" deprovision]
    operationStatusToString_fallback [of "\<lparr>State = inProgress, CreatedAt = 0\<rparr>" "''other''"]
  by (simp add: coveredByTable_def state_defs kind_defs)

subsection \<open>The label of a runtime under upgrade\<close>

text \<open>
  Claim C8 as stated, for every runtime status that contains a Provisioning record of
  T0 and an Upgrade record of T1 > T0, both in progress, fails in two ways. On a status
  that also holds a newer record of another kind: provisioned at 1, upgrade of 2,
  deprovisioning of 3, all in progress, is labelled \<open>deprovisioning\<close>. And on a status
  with a page whose \<^verbatim>\<open>Count\<close> is positive and that holds no record: reading the
  suspension page panics and there is no label.
\<close>

theorem runtimeStatus_not_upgrading:
  "Provisioning (Status deprovisionedAfterUpgrade) = Some \<lparr>State = inProgress, CreatedAt = 1\<rparr>
 \<and> Count (UpgradingKyma (Status deprovisionedAfterUpgrade)) = 1
 \<and> Data (UpgradingKyma (Status deprovisionedAfterUpgrade))
       = [\<lparr>State = inProgress, CreatedAt = 2\<rparr>]
 \<and> After (2::Time) 1
 \<and> runtimeStatus deprovisionedAfterUpgrade = Inr ''deprovisioning''
 \<and> runtimeStatus deprovisionedAfterUpgrade \<noteq> Inr ''upgrading''
 \<and> Provisioning (Status emptySuspensionPage) = Some \<lparr>State = inProgress, CreatedAt = 1\<rparr>
 \<and> Count (UpgradingKyma (Status emptySuspensionPage)) = 1
 \<and> Data (UpgradingKyma (Status emptySuspensionPage)) = [\<lparr>State = inProgress, CreatedAt = 2\<rparr>]
 \<and> Data (Suspension (Status emptySuspensionPage)) = []
 \<and> runtimeStatus emptySuspensionPage = Inl IndexOutOfRange
 \<and> runtimeStatus emptySuspensionPage \<noteq> Inr ''upgrading''"
  by (simp add: runtimeStatus_def findLastOperation_def deprovisionedAfterUpgrade_def
      emptySuspensionPage_def take_defs noData_def After_def operationStatusToString_def
      state_defs kind_defs)

text \<open>
  Claim C8, amended: for every runtime status with a Provisioning record \<open>p\<close> and an
  upgrade page with a positive \<^verbatim>\<open>Count\<close> whose first record \<open>u\<close> was created after
  \<open>p\<close>, both in progress, in which the Unsuspension page and the Suspension page each
  either have a \<^verbatim>\<open>Count\<close> that is not positive or have a first record that was not
  created strictly after \<open>u\<close>, and in which the Deprovisioning record is nil or was not
  created strictly after \<open>u\<close>, the label is \<open>upgrading\<close>.
\<close>

theorem runtimeStatus_upgrading:
  assumes "Provisioning (Status rt) = Some p"
    and "Count (UpgradingKyma (Status rt)) > 0"
    and "Data (UpgradingKyma (Status rt)) = u # us"
    and "After (CreatedAt u) (CreatedAt p)"
    and "State p = inProgress"
    and "State u = inProgress"
    and "firstNotNewer (Unsuspension (Status rt)) u"
    and "firstNotNewer (Suspension (Status rt)) u"
    and "noNewerRecord (Deprovisioning (Status rt)) u"
  shows "runtimeStatus rt = Inr ''upgrading''"
proof -
  have "takeUpgradingKyma (Status rt) (p, provision) = Inr (u, upgradeKyma)"
    using assms(2,3) by (rule takeUpgradingKyma_first)
  then have "findLastOperation rt = Inr (u, upgradeKyma)"
    using assms(1,7,8,9)
    by (simp add: findLastOperation_def takeUnsuspension_keeps takeSuspension_keeps
        takeDeprovisioning_keeps)
  then show ?thesis
    using assms(6)
    by (simp add: runtimeStatus_def operationStatusToString_def state_defs kind_defs)
qed

theorem runtimeStatus_upgrading_witness:
  "Provisioning (Status upgradedRuntime) = Some \<lparr>State = inProgress, CreatedAt = 1\<rparr>
 \<and> Data (UpgradingKyma (Status upgradedRuntime)) = [\<lparr>State = inProgress, CreatedAt = 2\<rparr>]
 \<and> After (2::Time) 1
 \<and> firstNotNewer (Unsuspension (Status upgradedRuntime)) \<lparr>State = inProgress, CreatedAt = 2\<rparr>
 \<and> firstNotNewer (Suspension (Status upgradedRuntime)) \<lparr>State = inProgress, CreatedAt = 2\<rparr>
 \<and> noNewerRecord (Deprovisioning (Status upgradedRuntime)) \<lparr>State = inProgress, CreatedAt = 2\<rparr>
 \<and> runtimeStatus upgradedRuntime = Inr ''upgrading''"
  using runtimeStatus_upgrading [of upgradedRuntime "\<lparr>State = inProgress, CreatedAt = 1\<rparr>"
      "\<lparr>State = inProgress, CreatedAt = 2\<rparr>" "[]"]
  by (simp add: upgradedRuntime_def noData_def After_def firstNotNewer_def noNewerRecord_def
      state_defs)

section \<open>Properties of the operation store and the operation manager\<close>

subsection \<open>One update at a time\<close>

text \<open>
  For a call of \<^verbatim>\<open>Update\<close> that runs alone: an operation that presents the stored
  version is written with the next version, and an operation that presents any other
  version is refused with \<open>Conflict\<close>.
\<close>

lemma Update_presented_version:
  assumes "s (ID op) = Some cur" and "Version op = Version cur"
  shows "Update now s op =
           Inr (s(ID op \<mapsto> op\<lparr>Version := Version cur + 1, UpdatedAt := now\<rparr>),
                op\<lparr>Version := Version cur + 1, UpdatedAt := now\<rparr>)"
  using assms by (simp add: Update_def Let_def)

lemma Update_other_version:
  assumes "s (ID op) = Some cur" and "Version op \<noteq> Version cur"
  shows "Update now s op = Inl Conflict"
  using assms by (simp add: Update_def)

subsection \<open>Persisting a transition\<close>

text \<open>
  The write goes through at the first attempt when neither the operation passed in nor
  the record stored under its ID is in a terminal state and the operation presents the
  stored version.
\<close>

lemma attempt_accepted:
  assumes "\<not> terminal (opState op)" and "s (ID op) = Some cur"
    and "\<not> terminal (opState cur)" and "Version op = Version cur"
    and "ID (tr op) = ID op" and "Version (tr op) = Version op"
  shows "attempt now s tr op =
           Inr (s(ID op \<mapsto> (tr op)\<lparr>Version := Version op + 1, UpdatedAt := now\<rparr>),
                (tr op)\<lparr>Version := Version op + 1, UpdatedAt := now\<rparr>)"
  using assms by (simp add: attempt_def Get_def Update_def Let_def)

lemma persist_accepted:
  assumes "\<not> terminal (opState op)" and "s (ID op) = Some cur"
    and "\<not> terminal (opState cur)" and "Version op = Version cur"
    and "ID (tr op) = ID op" and "Version (tr op) = Version op"
  shows "persist n now s tr op =
           Inr (s(ID op \<mapsto> (tr op)\<lparr>Version := Version op + 1, UpdatedAt := now\<rparr>),
                (tr op)\<lparr>Version := Version op + 1, UpdatedAt := now\<rparr>)"
proof -
  have "attempt now s tr op =
      Inr (s(ID op \<mapsto> (tr op)\<lparr>Version := Version op + 1, UpdatedAt := now\<rparr>),
           (tr op)\<lparr>Version := Version op + 1, UpdatedAt := now\<rparr>)"
    using assms by (rule attempt_accepted)
  then show ?thesis
    by (cases n) simp_all
qed

text \<open>
  A stale copy is refused with \<open>Conflict\<close>; with one more attempt allowed, the latest
  record is read and the transition is applied to it.
\<close>

lemma persist_stale:
  assumes "\<not> terminal (opState op)" and "s (ID op) = Some cur" and "ID cur = ID op"
    and "\<not> terminal (opState cur)" and "Version op \<noteq> Version cur"
    and "ID (tr op) = ID op" and "Version (tr op) = Version op"
    and "ID (tr cur) = ID cur" and "Version (tr cur) = Version cur"
  shows "persist 0 now s tr op = Inl (StorageError Conflict)"
    and "persist (Suc n) now s tr op =
           Inr (s(ID op \<mapsto> (tr cur)\<lparr>Version := Version cur + 1, UpdatedAt := now\<rparr>),
                (tr cur)\<lparr>Version := Version cur + 1, UpdatedAt := now\<rparr>)"
proof -
  have conflict: "attempt now s tr op = Inl (StorageError Conflict)"
    using assms(1,2,4,5,6,7) by (simp add: attempt_def Get_def Update_def)
  then show "persist 0 now s tr op = Inl (StorageError Conflict)"
    by simp
  have "s (ID cur) = Some cur"
    using assms(2,3) by simp
  then have "persist n now s tr cur =
      Inr (s(ID cur \<mapsto> (tr cur)\<lparr>Version := Version cur + 1, UpdatedAt := now\<rparr>),
           (tr cur)\<lparr>Version := Version cur + 1, UpdatedAt := now\<rparr>)"
    using assms(4,8,9) by (intro persist_accepted) simp_all
  then show "persist (Suc n) now s tr op =
      Inr (s(ID op \<mapsto> (tr cur)\<lparr>Version := Version cur + 1, UpdatedAt := now\<rparr>),
           (tr cur)\<lparr>Version := Version cur + 1, UpdatedAt := now\<rparr>)"
    using conflict assms(2,3) by (simp add: Get_def)
qed

subsection \<open>Terminal states are absorbing\<close>

text \<open>
  A write that goes through leaves every stored record that is in a terminal state as
  it was, whatever operation is passed in.
\<close>

lemma attempt_keeps_terminal:
  assumes "attempt now s tr op = Inr (s', op')" and "ID (tr op) = ID op"
    and "s k = Some r" and "terminal (opState r)"
  shows "s' k = Some r"
  using assms
  by (auto simp: attempt_def Get_def Update_def Let_def split: if_splits option.splits)

lemma persist_keeps_terminal:
  assumes "persist n now s tr op = Inr (s', op')" and "\<And>x. ID (tr x) = ID x"
    and "s k = Some r" and "terminal (opState r)"
  shows "s' k = Some r"
  using assms
proof (induction n arbitrary: op)
  case 0
  then show ?case
    using attempt_keeps_terminal [of now s tr op s' op' k r] by simp
next
  case (Suc n)
  show ?case
  proof (cases "attempt now s tr op")
    case (Inr res)
    then have "attempt now s tr op = Inr (s', op')"
      using Suc.prems(1) by simp
    then show ?thesis
      using attempt_keeps_terminal [of now s tr op s' op' k r] Suc.prems by simp
  next
    case (Inl e)
    then obtain latest where "persist n now s tr latest = Inr (s', op')"
      using Suc.prems(1)
      by (auto simp: Get_def split: managerError.splits storeError.splits option.splits)
    then show ?thesis
      using Suc.IH Suc.prems by blast
  qed
qed

text \<open>
  So each of the three transitions leaves the stored terminal records as they were,
  and a call on an operation in a terminal state returns it unchanged.
\<close>

lemma transitions_keep_terminal:
  assumes "s k = Some r" and "terminal (opState r)"
  shows "stored (OperationSucceeded retries now s op d) k = Some r"
    and "stored (OperationFailed retries now s op msg) k = Some r"
    and "stored (RetryOperation retries now s op msg retryInterval maxTime) k = Some r"
proof -
  have keep: "\<And>tr res. (\<And>x. ID (tr x) = ID x) \<Longrightarrow>
      persist retries now s tr op = Inr res \<Longrightarrow> fst res k = Some r"
    using persist_keeps_terminal [of retries now s _ op _ _ k r] assms
    by (metis prod.collapse)
  show "stored (OperationSucceeded retries now s op d) k = Some r"
    using assms(1) keep [of "\<lambda>x. x\<lparr>opState := Succeeded, Description := d\<rparr>"]
    by (auto simp: OperationSucceeded_def split: sum.splits)
  show "stored (OperationFailed retries now s op msg) k = Some r"
    using assms(1) keep [of "\<lambda>x. x\<lparr>opState := Failed, Description := msg\<rparr>"]
    by (auto simp: OperationFailed_def split: sum.splits)
  show "stored (RetryOperation retries now s op msg retryInterval maxTime) k = Some r"
    using assms(1) keep [of "\<lambda>x. x\<lparr>opState := Failed, Description := msg\<rparr>"]
      keep [of "\<lambda>x. x\<lparr>Description := msg\<rparr>"]
    by (auto simp: RetryOperation_def Let_def split: sum.splits)
qed

lemma persist_rejects_terminal:
  assumes "terminal (opState op)"
  shows "persist n now s tr op = Inl TerminalState"
  using assms by (cases n) (simp_all add: attempt_def)

lemma transitions_reject_terminal:
  assumes "terminal (opState op)"
  shows "updated (OperationSucceeded retries now s op d) = op"
    and "updated (OperationFailed retries now s op msg) = op"
    and "updated (RetryOperation retries now s op msg retryInterval maxTime) = op"
  using assms
  by (simp_all add: OperationSucceeded_def OperationFailed_def RetryOperation_def Let_def
      persist_rejects_terminal)

subsection \<open>The delay of a retry\<close>



subsection \<open>Retry\<close>







subsection \<open>Fail and Succeed\<close>







end
